theory Spec2Isabelle
  imports Complex_Main
begin

section \<open>The Python runtime the picker relies on\<close>

text \<open>
  The program under study is \<^verbatim>\<open>src/pdf_picker/picker.py\<close>. It is glue around three
  external programs (a file search, a selector, a viewer) and the PDF library. Text is
  modelled as \<open>string\<close>, one \<open>char\<close> per code point below 256; in that range the
  regular expression class \<^verbatim>\<open>\d\<close> is exactly \<^verbatim>\<open>0\<close> to \<^verbatim>\<open>9\<close>.

  Exceptions are values. \<^verbatim>\<open>exit(n)\<close> raises \<open>SystemExit n\<close>, which no handler of the
  program catches. A computation returns \<open>Inl e\<close> when it raises \<open>e\<close>.
\<close>

datatype py_exception =
    SystemExit int
  | FileNotFoundError
  | ValueError
  | IndexError
  | KeyError
  | OtherError

text \<open>
  What the process does to the outside: it prints, and it runs subprocesses
  (\<^verbatim>\<open>subprocess.run(cmd, input=...)\<close>, waited for). The trace lists these in order.
\<close>

datatype event =
    Print string
  | Run "string list" "string option"

text \<open>
  The outside world answers a subprocess call, given everything that happened before
  it, either with the captured standard output or with the exception that
  \<^verbatim>\<open>subprocess.run\<close> raises (\<open>FileNotFoundError\<close> when the executable is missing).
\<close>

type_synonym responder = "event list \<Rightarrow> string list \<Rightarrow> string option \<Rightarrow> py_exception + string"

definition subprocess_run ::
  "responder \<Rightarrow> string list \<Rightarrow> string option \<Rightarrow> event list \<Rightarrow> event list \<times> (py_exception + string)" where
  "subprocess_run sp cmd inp tr = (tr @ [Run cmd inp], sp tr cmd inp)"

subsection \<open>Integers and text\<close>

definition is_digit :: "char \<Rightarrow> bool" where
  "is_digit c = (48 \<le> (of_char c :: nat) \<and> (of_char c :: nat) \<le> 57)"

definition digit_val :: "char \<Rightarrow> nat" where
  "digit_val c = of_char c - 48"

definition digit_char :: "nat \<Rightarrow> char" where
  "digit_char n = char_of (48 + n)"

text \<open>\<^verbatim>\<open>str(i)\<close> and \<^verbatim>\<open>f"{i}"\<close> for an integer: its decimal numeral.\<close>

fun str_nat :: "nat \<Rightarrow> string" where
  "str_nat n = (if n < 10 then [digit_char n] else str_nat (n div 10) @ [digit_char (n mod 10)])"

declare str_nat.simps [simp del]

definition str_int :: "int \<Rightarrow> string" where
  "str_int i = (if i < 0 then CHR ''-'' # str_nat (nat (- i)) else str_nat (nat i))"

definition digits_value :: "string \<Rightarrow> nat" where
  "digits_value ds = foldl (\<lambda>a c. 10 * a + digit_val c) 0 ds"

text \<open>
  \<^verbatim>\<open>int(s)\<close> for a string: surrounding white space is dropped, one sign is allowed,
  and the rest must be decimal digits, with single underscores allowed between digits.
  More than \<^verbatim>\<open>sys.get_int_max_str_digits()\<close> digits (4300 unless reconfigured) is a
  \<open>ValueError\<close> as well.
\<close>

definition int_max_str_digits :: nat where
  "int_max_str_digits = 4300"

definition py_isspace :: "char \<Rightarrow> bool" where
  "py_isspace c = ((of_char c :: nat) \<in> {9, 10, 11, 12, 13, 32, 133, 160})"

definition py_strip :: "string \<Rightarrow> string" where
  "py_strip s = rev (dropWhile py_isspace (rev (dropWhile py_isspace s)))"

fun int_body :: "string \<Rightarrow> bool" where
  "int_body [] = False"
| "int_body [c] = is_digit c"
| "int_body (c # d # cs) =
     (is_digit c \<and> (if d = CHR ''_'' then int_body cs else int_body (d # cs)))"

definition py_int :: "string \<Rightarrow> py_exception + int" where
  "py_int s =
     (let t = py_strip s;
          neg = (t \<noteq> [] \<and> hd t = CHR ''-'');
          body = (if t \<noteq> [] \<and> (hd t = CHR ''-'' \<or> hd t = CHR ''+'') then tl t else t);
          ds = filter is_digit body
      in if int_body body \<and> length ds \<le> int_max_str_digits
         then Inr (if neg then - int (digits_value ds) else int (digits_value ds))
         else Inl ValueError)"

text \<open>\<^verbatim>\<open>sep.join(xs)\<close>.\<close>

fun join :: "string \<Rightarrow> string list \<Rightarrow> string" where
  "join sep [] = []"
| "join sep [x] = x"
| "join sep (x # y # ys) = x @ sep @ join sep (y # ys)"

text \<open>\<^verbatim>\<open>s.split("\n")\<close>: always at least one field.\<close>

fun split_lines :: "string \<Rightarrow> string list" where
  "split_lines [] = [[]]"
| "split_lines (c # cs) =
     (if c = CHR 0x0A then [] # split_lines cs
      else (case split_lines cs of l # ls \<Rightarrow> (c # l) # ls | [] \<Rightarrow> [[c]]))"

text \<open>
  \<^verbatim>\<open>re.search(r"\d*", s).group(0)\<close>: the pattern matches the empty string, so the
  first match is at position 0 and is the longest run of digits there.
\<close>

definition leading_digits :: "string \<Rightarrow> string" where
  "leading_digits s = takeWhile is_digit s"

subsection \<open>shlex.split\<close>

text \<open>
  \<^verbatim>\<open>shlex.split(s)\<close> runs the POSIX-mode lexer with \<^verbatim>\<open>whitespace_split\<close> set and no
  comment characters. The function below is \<^verbatim>\<open>shlex.read_token\<close> run to the end of the
  input: \<open>state\<close> is the lexer's state character (\<^verbatim>\<open>' '\<close> between tokens, \<^verbatim>\<open>'a'\<close>
  inside a word, a quote character inside quotes, the backslash after an escape),
  \<open>escapedstate\<close> the state to go back to after an escape, \<open>token\<close> the token being
  built and \<open>quoted\<close> whether it has seen a quote. An unclosed quote and a trailing
  backslash raise \<open>ValueError\<close>.
\<close>

definition shlex_whitespace :: "char set" where
  "shlex_whitespace = {CHR '' '', CHR 0x09, CHR 0x0D, CHR 0x0A}"

definition shlex_quotes :: "char set" where
  "shlex_quotes = {CHR 0x27, CHR 0x22}"

definition shlex_escape :: char where
  "shlex_escape = CHR 0x5C"

definition emit :: "string \<Rightarrow> bool \<Rightarrow> string list \<Rightarrow> string list" where
  "emit token quoted toks = (if token \<noteq> [] \<or> quoted then toks @ [token] else toks)"

fun read_token :: "char \<Rightarrow> char \<Rightarrow> string \<Rightarrow> bool \<Rightarrow> string list \<Rightarrow> string \<Rightarrow> py_exception + string list" where
  "read_token state escapedstate token quoted toks [] =
     (if state \<in> shlex_quotes then Inl ValueError
      else if state = shlex_escape then Inl ValueError
      else Inr (emit token quoted toks))"
| "read_token state escapedstate token quoted toks (nextchar # rest) =
     (if state = CHR '' '' then
        (if nextchar \<in> shlex_whitespace then
           read_token (CHR '' '') (CHR '' '') [] False (emit token quoted toks) rest
         else if nextchar = shlex_escape then
           read_token nextchar (CHR ''a'') token quoted toks rest
         else if nextchar \<in> shlex_quotes then
           read_token nextchar escapedstate token quoted toks rest
         else
           read_token (CHR ''a'') escapedstate [nextchar] quoted toks rest)
      else if state \<in> shlex_quotes then
        (if nextchar = state then
           read_token (CHR ''a'') escapedstate token True toks rest
         else if nextchar = shlex_escape \<and> state = CHR 0x22 then
           read_token nextchar state token True toks rest
         else
           read_token state escapedstate (token @ [nextchar]) True toks rest)
      else if state = shlex_escape then
        (let token' = (if escapedstate \<in> shlex_quotes \<and> nextchar \<noteq> state \<and> nextchar \<noteq> escapedstate
                       then token @ [state] else token)
         in read_token escapedstate escapedstate (token' @ [nextchar]) quoted toks rest)
      else
        (if nextchar \<in> shlex_whitespace then
           read_token (CHR '' '') (CHR '' '') [] False (emit token quoted toks) rest
         else if nextchar \<in> shlex_quotes then
           read_token nextchar escapedstate token quoted toks rest
         else if nextchar = shlex_escape then
           read_token nextchar (CHR ''a'') token quoted toks rest
         else
           read_token state escapedstate (token @ [nextchar]) quoted toks rest))"

definition shlex_split :: "string \<Rightarrow> py_exception + string list" where
  "shlex_split s = read_token (CHR '' '') (CHR '' '') [] False [] s"

section \<open>The picker\<close>

subsection \<open>Reporting an error\<close>

text \<open>
  \<^verbatim>\<open>send_error\<close> prints the message, tries a desktop notification and leaves with
  \<^verbatim>\<open>exit(1)\<close>. A missing \<^verbatim>\<open>notify-send\<close> is ignored; any other failure of that call
  propagates. It never returns, so its result is the exception it ends with.
\<close>

definition send_error :: "responder \<Rightarrow> string \<Rightarrow> event list \<Rightarrow> event list \<times> py_exception" where
  "send_error sp error tr =
     (case subprocess_run sp [''notify-send'', error] None (tr @ [Print error]) of
        (tr', Inl e) \<Rightarrow> if e = FileNotFoundError then (tr', SystemExit 1) else (tr', e)
      | (tr', Inr _) \<Rightarrow> (tr', SystemExit 1))"

text \<open>
  \<^verbatim>\<open>try_running_subprocess\<close> returns the completed process, of which the callers read
  the standard output only.
\<close>

definition try_running_subprocess ::
  "responder \<Rightarrow> string list \<Rightarrow> string \<Rightarrow> string option \<Rightarrow> event list
     \<Rightarrow> event list \<times> (py_exception + string)" where
  "try_running_subprocess sp cmd not_found_error inp tr =
     (case subprocess_run sp cmd inp tr of
        (tr', Inl e) \<Rightarrow>
          if e = FileNotFoundError
          then (case send_error sp not_found_error tr' of (tr'', e') \<Rightarrow> (tr'', Inl e'))
          else (tr', Inl e)
      | (tr', Inr out) \<Rightarrow> (tr', Inr out))"

subsection \<open>Searching\<close>

text \<open>\<^verbatim>\<open>stdout.split("\n")[:-1]\<close>.\<close>

definition stdout_lines :: "string \<Rightarrow> string list" where
  "stdout_lines out = butlast (split_lines out)"

definition search_pdfs ::
  "responder \<Rightarrow> string \<Rightarrow> string option \<Rightarrow> bool \<Rightarrow> event list
     \<Rightarrow> event list \<times> (py_exception + string list)" where
  "search_pdfs sp base_directory cmd hidden tr =
     (case cmd of
        Some c \<Rightarrow>
          (case shlex_split c of
             Inl e \<Rightarrow> (tr, Inl e)
           | Inr argv \<Rightarrow>
               (case try_running_subprocess sp argv ''Command not found!'' None tr of
                  (tr', Inl e) \<Rightarrow> (tr', Inl e)
                | (tr', Inr out) \<Rightarrow> (tr', Inr (stdout_lines out))))
      | None \<Rightarrow>
          (let fd = [''fd'', ''-I'', ''-t'', ''f'', ''-e'', ''pdf'', ''-a'', ''.'', base_directory]
                      @ (if hidden then [''-H''] else [])
           in case subprocess_run sp fd None tr of
                (tr', Inr out) \<Rightarrow> (tr', Inr (stdout_lines out))
              | (tr', Inl e) \<Rightarrow>
                  if e = FileNotFoundError
                  then (case subprocess_run sp
                               [''find'', base_directory, ''-type'', ''f'', ''-name'', ''*.pdf''] None tr' of
                          (tr'', Inr out) \<Rightarrow> (tr'', Inr (stdout_lines out))
                        | (tr'', Inl e') \<Rightarrow> (tr'', Inl e'))
                  else (tr', Inl e)))"

subsection \<open>Selecting\<close>

text \<open>
  \<^verbatim>\<open>select\<close> writes into the list it is given, so the model returns the list as it is
  when \<^verbatim>\<open>select\<close> ends (by returning or by raising) next to the trace and the result.
  The \<^verbatim>\<open>exit(1)\<close> that follows \<^verbatim>\<open>send_error\<close> in the source is never reached.
\<close>

definition prefix_indices :: "string list \<Rightarrow> string list" where
  "prefix_indices items = map (\<lambda>(i, x). str_nat i @ [CHR 0x09] @ x) (enumerate 0 items)"

text \<open>Lines 91 to 93: without a selector command, fzf is used and indices are forced on.\<close>

definition fzf_default :: "string option \<Rightarrow> bool \<Rightarrow> string \<times> bool" where
  "fzf_default cmd indices =
     (case cmd of None \<Rightarrow> (''fzf --with-nth 2..'', True) | Some c \<Rightarrow> (c, indices))"

definition select ::
  "responder \<Rightarrow> string list \<Rightarrow> string option \<Rightarrow> bool \<Rightarrow> bool \<Rightarrow> event list
     \<Rightarrow> event list \<times> string list \<times> (py_exception + int)" where
  "select sp items cmd indices check tr =
     (case fzf_default cmd indices of
        (cmd', indices') \<Rightarrow>
          (let items' = (if indices' then prefix_indices items else items)
           in case shlex_split cmd' of
                Inl e \<Rightarrow> (tr, items', Inl e)
              | Inr argv \<Rightarrow>
                  (case try_running_subprocess sp argv (''Selector ('' @ cmd' @ '') not found!'')
                          (Some (join [CHR 0x0A] items')) tr of
                     (tr', Inl e) \<Rightarrow> (tr', items', Inl e)
                   | (tr', Inr out) \<Rightarrow>
                       (let selection = (if indices' then leading_digits out else out)
                        in if selection = []
                           then (if check
                                 then (case send_error sp ''Nothing selected!'' tr' of
                                         (tr'', e) \<Rightarrow> (tr'', items', Inl e))
                                 else (tr', items', Inr (- 1)))
                           else (tr', items', py_int selection)))))"

subsection \<open>The table of contents\<close>

text \<open>
  What the program reads of the PDF library. A point and a matrix hold floats; the
  float type is left open as \<open>'f\<close>, with its own addition and multiplication.
  \<^verbatim>\<open>Point() \<close> is the origin and \<^verbatim>\<open>point * matrix\<close> the affine image of the point.
\<close>

record 'f point =
  point_x :: 'f
  point_y :: 'f

record 'f matrix =
  mat_a :: 'f
  mat_b :: 'f
  mat_c :: 'f
  mat_d :: 'f
  mat_e :: 'f
  mat_f :: 'f

definition Point0 :: "('f::zero) point" where
  "Point0 = \<lparr>point_x = 0, point_y = 0\<rparr>"

definition point_mul :: "('f::{plus,times}) point \<Rightarrow> 'f matrix \<Rightarrow> 'f point" where
  "point_mul p m =
     \<lparr>point_x = point_x p * mat_a m + point_y p * mat_c m + mat_e m,
      point_y = point_x p * mat_b m + point_y p * mat_d m + mat_f m\<rparr>"

text \<open>
  An item of \<^verbatim>\<open>doc.get_toc(simple=False)\<close> is \<^verbatim>\<open>[lvl, title, page, dest]\<close>: the
  hierarchy level (1 for a top entry, so never negative), the title, the 1-based number
  of the destination page (-1 when there is none) and a dictionary of which the program
  reads and writes the key \<^verbatim>\<open>"to"\<close> only; \<open>toc_to\<close> is \<open>None\<close> when the key is absent.
\<close>

record 'f toc_entry =
  toc_level :: nat
  toc_title :: string
  toc_page :: int
  toc_to :: "'f point option"

record 'f page =
  transformation_matrix :: "'f matrix"

record 'f document =
  doc_toc :: "'f toc_entry list"
  doc_pages :: "'f page list"

text \<open>\<^verbatim>\<open>doc.load_page(n)\<close> for \<open>n \<ge> 0\<close>: pages are numbered from 0.\<close>

definition load_page :: "'f document \<Rightarrow> nat \<Rightarrow> py_exception + 'f page" where
  "load_page doc page_id =
     (if page_id < length (doc_pages doc) then Inr (doc_pages doc ! page_id) else Inl ValueError)"

fun get_toc_loop ::
  "('f::{plus,times,zero}) document \<Rightarrow> bool \<Rightarrow> 'f toc_entry list \<Rightarrow> 'f toc_entry list
     \<Rightarrow> py_exception + 'f toc_entry list" where
  "get_toc_loop doc mupdf_coordinate_space [] toc = Inr toc"
| "get_toc_loop doc mupdf_coordinate_space (t # ts) toc =
     (case load_page doc (toc_level t) of
        Inl e \<Rightarrow> Inl e
      | Inr page \<Rightarrow>
          (let coords = (case toc_to t of Some p \<Rightarrow> p | None \<Rightarrow> Point0);
               coords' = (if mupdf_coordinate_space
                          then point_mul coords (transformation_matrix page) else coords)
           in get_toc_loop doc mupdf_coordinate_space ts (toc @ [t\<lparr>toc_to := Some coords'\<rparr>])))"

definition get_toc ::
  "(string \<Rightarrow> py_exception + ('f::{plus,times,zero}) document) \<Rightarrow> string \<Rightarrow> bool
     \<Rightarrow> py_exception + 'f toc_entry list" where
  "get_toc pymupdf_open path mupdf_coordinate_space =
     (case pymupdf_open path of
        Inl e \<Rightarrow> Inl e
      | Inr doc \<Rightarrow> get_toc_loop doc mupdf_coordinate_space (doc_toc doc) [])"

subsection \<open>Opening the viewer\<close>

text \<open>
  A position is \<^verbatim>\<open>[page, x, y]\<close>: an integer and two floats. \<^verbatim>\<open>str\<close> of a float is
  left to the runtime (\<open>fstr\<close>); it is made of digits, a sign, a point, an exponent
  letter or the words \<^verbatim>\<open>inf\<close> and \<^verbatim>\<open>nan\<close>, never of a backslash, so \<^verbatim>\<open>re.sub\<close> inserts
  it as it is.
\<close>

datatype 'f py_number = PyInt int | PyFloat 'f

definition py_str :: "('f \<Rightarrow> string) \<Rightarrow> 'f py_number \<Rightarrow> string" where
  "py_str fstr v = (case v of PyInt i \<Rightarrow> str_int i | PyFloat r \<Rightarrow> fstr r)"

text \<open>
  \<^verbatim>\<open>re.sub(pattern, repl, s)\<close> for a pattern that matches one fixed, non-empty text:
  every occurrence, from the left and without overlap, becomes \<open>repl\<close>.
\<close>

function re_sub :: "string \<Rightarrow> string \<Rightarrow> string \<Rightarrow> string" where
  "re_sub pat repl [] = []"
| "re_sub pat repl (c # cs) =
     (if pat \<noteq> [] \<and> take (length pat) (c # cs) = pat
      then repl @ re_sub pat repl (drop (length pat) (c # cs))
      else c # re_sub pat repl cs)"
  by pat_completeness auto
termination
  by (relation "measure (\<lambda>(pat, repl, s). length s)") auto

definition pos_strings :: "string list" where
  "pos_strings = [''$page'', ''$xloc'', ''$yloc'']"

fun substitute :: "('f \<Rightarrow> string) \<Rightarrow> 'f py_number list \<Rightarrow> nat list \<Rightarrow> string \<Rightarrow> py_exception + string" where
  "substitute fstr position [] position_args = Inr position_args"
| "substitute fstr position (i # rest) position_args =
     (if i < length position
      then substitute fstr position rest
             (re_sub (pos_strings ! i) (py_str fstr (position ! i)) position_args)
      else Inl IndexError)"

text \<open>Lines 154 to 156: without a viewer command, zathura and its own template are used.\<close>

definition zathura_default :: "string option \<Rightarrow> string option \<Rightarrow> string \<times> string option" where
  "zathura_default cmd position_args =
     (case cmd of None \<Rightarrow> (''zathura'', Some ''-P $page'') | Some c \<Rightarrow> (c, position_args))"

definition open_pdf ::
  "responder \<Rightarrow> ('f \<Rightarrow> string) \<Rightarrow> string \<Rightarrow> string option \<Rightarrow> string option
     \<Rightarrow> 'f py_number list option \<Rightarrow> event list \<Rightarrow> event list \<times> (py_exception + unit)" where
  "open_pdf sp fstr path cmd position_args position tr =
     (case zathura_default cmd position_args of
        (cmd', position_args') \<Rightarrow>
          (case position of
             None \<Rightarrow>
               (case shlex_split cmd' of
                  Inl e \<Rightarrow> (tr, Inl e)
                | Inr argv \<Rightarrow>
                    (case try_running_subprocess sp (argv @ [path])
                            (''PDF viewer ('' @ cmd' @ '') not found!'') None tr of
                       (tr', Inl e) \<Rightarrow> (tr', Inl e)
                     | (tr', Inr _) \<Rightarrow> (tr', Inr ())))
           | Some pos \<Rightarrow>
               (case (if position_args' \<noteq> None \<and> position_args' \<noteq> Some []
                      then substitute fstr pos [0, 1, 2] (the position_args')
                      else Inr []) of
                  Inl e \<Rightarrow> (tr, Inl e)
                | Inr position_args'' \<Rightarrow>
                    (case shlex_split cmd' of
                       Inl e \<Rightarrow> (tr, Inl e)
                     | Inr argv \<Rightarrow>
                         (case shlex_split position_args'' of
                            Inl e \<Rightarrow> (tr, Inl e)
                          | Inr extra \<Rightarrow>
                              (case try_running_subprocess sp (argv @ [path] @ extra)
                                      (''PDF viewer ('' @ cmd' @ '') not found!'') None tr of
                                 (tr', Inl e) \<Rightarrow> (tr', Inl e)
                               | (tr', Inr _) \<Rightarrow> (tr', Inr ())))))))"

subsection \<open>The program\<close>

record args =
  full_path :: bool
  no_toc :: bool
  hidden :: bool
  base_directory :: "string option"
  selector :: "string option"
  selector_indices :: bool
  pdf_selector_args :: "string option"
  toc_selector_args :: "string option"
  pdf_viewer :: "string option"
  pdf_viewer_args :: "string option"
  mupdf_coordinate_space :: bool
  search_cmd :: "string option"

text \<open>
  The world of one run: the answers to subprocess calls, the PDF library's
  \<^verbatim>\<open>open\<close>, the value of \<^verbatim>\<open>expandvars("$HOME")\<close> and \<^verbatim>\<open>str\<close> on floats.
\<close>

record 'f world =
  run :: responder
  pymupdf_open :: "string \<Rightarrow> py_exception + 'f document"
  expandvars_HOME :: string
  float_str :: "'f \<Rightarrow> string"

definition merge_strings :: "string option list \<Rightarrow> string option" where
  "merge_strings strings =
     (let filtered_strings = concat (map (\<lambda>s. case s of None \<Rightarrow> [] | Some x \<Rightarrow> [x]) strings)
      in if filtered_strings \<noteq> [] then Some (join '' '' filtered_strings) else None)"

text \<open>
  \<^verbatim>\<open>re.sub(r".*/", "", p)\<close> on one line of output: what follows the last slash, the
  whole line when it has none.
\<close>

definition strip_directories :: "string \<Rightarrow> string" where
  "strip_directories p = rev (takeWhile (\<lambda>c. c \<noteq> CHR ''/'') (rev p))"

text \<open>\<^verbatim>\<open>xs[i]\<close>: a negative index counts from the end.\<close>

definition py_index :: "'a list \<Rightarrow> int \<Rightarrow> py_exception + 'a" where
  "py_index xs i =
     (if 0 \<le> i \<and> i < int (length xs) then Inr (xs ! nat i)
      else if i < 0 \<and> - int (length xs) \<le> i then Inr (xs ! nat (int (length xs) + i))
      else Inl IndexError)"

definition main :: "('f::{plus,times,zero}) world \<Rightarrow> args \<Rightarrow> event list \<Rightarrow> event list \<times> (py_exception + unit)" where
  "main w a tr =
     (let search_dir = (case base_directory a of Some b \<Rightarrow> b | None \<Rightarrow> expandvars_HOME w)
      in case search_pdfs (run w) search_dir (search_cmd a) (hidden a) tr of
           (tr1, Inl e) \<Rightarrow> (tr1, Inl e)
         | (tr1, Inr pdfs) \<Rightarrow>
             (let pdf_items = map (\<lambda>p. if full_path a then p else strip_directories p) pdfs
              in case select (run w) pdf_items (merge_strings [selector a, pdf_selector_args a])
                        (selector_indices a) True tr1 of
                   (tr2, _, Inl e) \<Rightarrow> (tr2, Inl e)
                 | (tr2, _, Inr i) \<Rightarrow>
                     (case py_index pdfs i of
                        Inl e \<Rightarrow> (tr2, Inl e)
                      | Inr selected_pdf \<Rightarrow>
                          (case get_toc (pymupdf_open w) selected_pdf (mupdf_coordinate_space a) of
                             Inl e \<Rightarrow> (tr2, Inl e)
                           | Inr toc \<Rightarrow>
                               if length toc = 0 \<or> no_toc a
                               then open_pdf (run w) (float_str w) selected_pdf (pdf_viewer a) None None tr2
                               else
                                 (case select (run w) (map toc_title toc)
                                         (merge_strings [selector a, toc_selector_args a])
                                         (selector_indices a) False tr2 of
                                    (tr3, _, Inl e) \<Rightarrow> (tr3, Inl e)
                                  | (tr3, _, Inr toc_index) \<Rightarrow>
                                      if toc_index \<ge> 0
                                      then
                                        (case py_index toc toc_index of
                                           Inl e \<Rightarrow> (tr3, Inl e)
                                         | Inr t \<Rightarrow>
                                             (case toc_to t of
                                                None \<Rightarrow> (tr3, Inl KeyError)
                                              | Some toc_point \<Rightarrow>
                                                  open_pdf (run w) (float_str w) selected_pdf (pdf_viewer a)
                                                    (pdf_viewer_args a)
                                                    (Some [PyInt (toc_page t), PyFloat (point_x toc_point),
                                                           PyFloat (point_y toc_point)])
                                                    tr3))
                                      else open_pdf (run w) (float_str w) selected_pdf (pdf_viewer a)
                                             None None tr3)))))"

section \<open>Properties\<close>

subsection \<open>Decimal numerals and the integer parser\<close>

lemma digit_char_is_digit: "d < 10 \<Longrightarrow> is_digit (digit_char d)"
  by (simp add: is_digit_def digit_char_def)

lemma digit_val_digit_char: "d < 10 \<Longrightarrow> digit_val (digit_char d) = d"
  by (simp add: digit_val_def digit_char_def)

lemma str_nat_digits: "c \<in> set (str_nat n) \<Longrightarrow> is_digit c"
proof (induction n rule: str_nat.induct)
  case (1 n)
  show ?case
  proof (cases "n < 10")
    case True
    with "1.prems" show ?thesis
      by (simp add: str_nat.simps [of n] digit_char_is_digit)
  next
    case False
    with "1.prems" "1.IH" show ?thesis
      by (auto simp: str_nat.simps [of n] digit_char_is_digit)
  qed
qed

lemma str_nat_nonempty: "str_nat n \<noteq> []"
  by (subst str_nat.simps) simp

lemma digits_value_snoc: "digits_value (ds @ [c]) = 10 * digits_value ds + digit_val c"
  by (simp add: digits_value_def)

lemma digits_value_str_nat: "digits_value (str_nat n) = n"
proof (induction n rule: str_nat.induct)
  case (1 n)
  show ?case
  proof (cases "n < 10")
    case True
    then show ?thesis
      by (simp add: str_nat.simps [of n] digits_value_def digit_val_digit_char)
  next
    case False
    with "1.IH" show ?thesis
      by (simp add: str_nat.simps [of n] digits_value_snoc digit_val_digit_char)
  qed
qed

lemma prefix_indices_nth:
  "i < length items \<Longrightarrow> prefix_indices items ! i = str_nat i @ [CHR 0x09] @ items ! i"
  by (simp add: prefix_indices_def nth_enumerate_eq)

lemma length_prefix_indices: "length (prefix_indices items) = length items"
  by (simp add: prefix_indices_def)

lemma tab_not_digit: "\<not> is_digit (CHR 0x09)"
  by (simp add: is_digit_def)

lemma leading_digits_run:
  "(\<And>c. c \<in> set ds \<Longrightarrow> is_digit c) \<Longrightarrow> \<not> is_digit x \<Longrightarrow> leading_digits (ds @ x # rest) = ds"
  by (simp add: leading_digits_def takeWhile_append2)

lemma leading_digits_all: "c \<in> set (leading_digits s) \<Longrightarrow> is_digit c"
  by (auto simp: leading_digits_def dest: set_takeWhileD)

lemma digit_not_space: "is_digit c \<Longrightarrow> \<not> py_isspace c"
  by (auto simp: is_digit_def py_isspace_def)

lemma py_strip_digits:
  assumes "ds \<noteq> []" and "\<And>c. c \<in> set ds \<Longrightarrow> is_digit c"
  shows "py_strip ds = ds"
proof -
  have h: "\<not> py_isspace (hd ds)" using assms by (simp add: digit_not_space)
  have l: "\<not> py_isspace (last ds)" using assms by (simp add: digit_not_space)
  have "dropWhile py_isspace ds = ds" using h assms(1) by (cases ds) auto
  moreover have "dropWhile py_isspace (rev ds) = rev ds"
    using l assms(1) by (cases "rev ds") (auto simp: last_rev hd_rev)
  ultimately show ?thesis by (simp add: py_strip_def)
qed

lemma int_body_digits: "ds \<noteq> [] \<Longrightarrow> (\<And>c. c \<in> set ds \<Longrightarrow> is_digit c) \<Longrightarrow> int_body ds"
proof (induction ds rule: int_body.induct)
  case 1 then show ?case by simp
next
  case (2 c) then show ?case by simp
next
  case (3 c d cs)
  have "is_digit d" using 3(4) by simp
  then have "d \<noteq> CHR ''_''" by (auto simp: is_digit_def)
  with 3 show ?case by simp
qed

lemma py_int_digits:
  assumes "ds \<noteq> []" and "\<And>c. c \<in> set ds \<Longrightarrow> is_digit c" and "length ds \<le> int_max_str_digits"
  shows "py_int ds = Inr (int (digits_value ds))"
proof -
  have s: "py_strip ds = ds" using assms by (simp add: py_strip_digits)
  have "is_digit (hd ds)" using assms by simp
  then have nosign: "hd ds \<noteq> CHR ''-''" "hd ds \<noteq> CHR ''+''" by (auto simp: is_digit_def)
  have f: "filter is_digit ds = ds" using assms(2) by (simp add: filter_id_conv)
  show ?thesis using assms nosign
    by (simp add: py_int_def s f int_body_digits Let_def)
qed


lemma select_completed:
  assumes "fzf_default cmd indices = (c, ind)"
    and "shlex_split c = Inr argv"
    and "sp tr argv (Some (join [CHR 0x0A] (if ind then prefix_indices items else items))) = Inr out"
  shows "select sp items cmd indices check tr =
     (let items' = (if ind then prefix_indices items else items);
          tr' = tr @ [Run argv (Some (join [CHR 0x0A] items'))];
          selection = (if ind then leading_digits out else out)
      in if selection = []
         then (if check
               then (case send_error sp ''Nothing selected!'' tr' of (tr'', e) \<Rightarrow> (tr'', items', Inl e))
               else (tr', items', Inr (- 1)))
         else (tr', items', py_int selection))"
  using assms
  by (simp add: select_def try_running_subprocess_def subprocess_run_def Let_def)

lemma select_items:
  "fzf_default cmd indices = (c, ind) \<Longrightarrow>
   fst (snd (select sp items cmd indices check tr)) = (if ind then prefix_indices items else items)"
  by (simp add: select_def Let_def split: sum.splits prod.splits)

lemma leading_digits_prefix:
  assumes "\<And>c. c \<in> set ds \<Longrightarrow> is_digit c" and "rest = [] \<or> \<not> is_digit (hd rest)"
  shows "leading_digits (ds @ rest) = ds"
proof (cases rest)
  case Nil
  then show ?thesis using assms(1) by (simp add: leading_digits_def)
next
  case (Cons x xs)
  then show ?thesis using assms by (simp add: leading_digits_run)
qed

subsection \<open>The selector\<close>

text \<open>
  C9. When index prefixing is on, asked for by the caller or forced by the default
  fzf selector, \<^verbatim>\<open>select\<close> leaves the caller's list changed: whatever way it ends, by
  returning, by exiting or by raising, the list has the same length and element \<open>i\<close> is
  the decimal numeral of \<open>i\<close>, a tab and the old element. Nothing restores it.
\<close>

theorem select_mutates_items:
  assumes "cmd = None \<or> indices"
  shows "fst (snd (select sp items cmd indices check tr)) = prefix_indices items
       \<and> length (prefix_indices items) = length items
       \<and> (\<forall>i < length items. prefix_indices items ! i = str_nat i @ [CHR 0x09] @ items ! i)"
proof -
  obtain c where "fzf_default cmd indices = (c, True)"
    using assms by (cases cmd) (auto simp: fzf_default_def)
  then show ?thesis
    by (simp add: select_items length_prefix_indices prefix_indices_nth)
qed

theorem select_mutates_items_witness:
  "fst (snd (select (\<lambda>tr cmd inp. Inr ''1'') [''a'', ''b''] None False True []))
     = [[CHR ''0'', CHR 0x09, CHR ''a''], [CHR ''1'', CHR 0x09, CHR ''b'']]"
proof -
  have e: "prefix_indices [''a'', ''b'']
             = [[CHR ''0'', CHR 0x09, CHR ''a''], [CHR ''1'', CHR 0x09, CHR ''b'']]"
    by code_simp
  show ?thesis
    using select_mutates_items [where cmd = None and indices = False and items = "[''a'', ''b'']"
        and sp = "\<lambda>tr cmd inp. Inr ''1''" and check = True and tr = "[]"]
    by (simp add: e)
qed

text \<open>
  C5. When the selector prints nothing: in soft mode (\<^verbatim>\<open>check=False\<close>) \<^verbatim>\<open>select\<close>
  returns \<open>-1\<close> and does nothing else; in hard mode (\<^verbatim>\<open>check=True\<close>) it prints
  \<^verbatim>\<open>Nothing selected!\<close>, calls \<^verbatim>\<open>notify-send\<close> with the same text and then raises, never
  returning a value: \<open>SystemExit 1\<close> when the notification ran or \<^verbatim>\<open>notify-send\<close> is
  missing. This holds for every list, with and without index prefixing.
\<close>

theorem select_empty_output:
  assumes "fzf_default cmd indices = (c, ind)"
    and "shlex_split c = Inr argv"
    and "sent = (if ind then prefix_indices items else items)"
    and "sp tr argv (Some (join [CHR 0x0A] sent)) = Inr []"
    and "asked = tr @ [Run argv (Some (join [CHR 0x0A] sent))]"
    and "notify = sp (asked @ [Print ''Nothing selected!'']) [''notify-send'', ''Nothing selected!''] None"
  shows "select sp items cmd indices False tr = (asked, sent, Inr (- 1))
       \<and> (\<exists>e. select sp items cmd indices True tr =
                 (asked @ [Print ''Nothing selected!'',
                           Run [''notify-send'', ''Nothing selected!''] None], sent, Inl e)
              \<and> ((\<exists>out. notify = Inr out) \<or> notify = Inl FileNotFoundError \<longrightarrow> e = SystemExit 1))"
proof -
  have sel: "(if ind then leading_digits [] else []) = []"
    by (simp add: leading_digits_def)
  have soft: "select sp items cmd indices False tr = (asked, sent, Inr (- 1))"
    using assms(3,4,5) sel by (simp add: select_completed [OF assms(1,2)] Let_def)
  have hard: "select sp items cmd indices True tr =
      (case send_error sp ''Nothing selected!'' asked of (tr'', e) \<Rightarrow> (tr'', sent, Inl e))"
    using assms(3,4,5) sel by (simp add: select_completed [OF assms(1,2)] Let_def)
  show ?thesis
  proof (cases notify)
    case (Inl x)
    then show ?thesis using soft hard assms(6)
      by (auto simp: send_error_def subprocess_run_def)
  next
    case (Inr out)
    then show ?thesis using soft hard assms(6)
      by (auto simp: send_error_def subprocess_run_def)
  qed
qed

theorem select_empty_output_witness:
  "select (\<lambda>tr cmd inp. Inr []) [''a'', ''b''] (Some ''rofi -dmenu'') False False []
     = ([Run [''rofi'', ''-dmenu''] (Some [CHR ''a'', CHR 0x0A, CHR ''b''])], [''a'', ''b''], Inr (- 1))
   \<and> select (\<lambda>tr cmd inp. Inr []) [''a'', ''b''] (Some ''rofi -dmenu'') False True []
     = ([Run [''rofi'', ''-dmenu''] (Some [CHR ''a'', CHR 0x0A, CHR ''b'']),
         Print ''Nothing selected!'', Run [''notify-send'', ''Nothing selected!''] None],
        [''a'', ''b''], Inl (SystemExit 1))"
  using select_empty_output [where sp = "\<lambda>tr cmd inp. Inr []" and items = "[''a'', ''b'']"
      and cmd = "Some ''rofi -dmenu''" and indices = False and tr = "[]"
      and c = "''rofi -dmenu''" and ind = False and argv = "[''rofi'', ''-dmenu'']"
      and sent = "[''a'', ''b'']"
      and asked = "[Run [''rofi'', ''-dmenu''] (Some [CHR ''a'', CHR 0x0A, CHR ''b''])]"
      and notify = "Inr []"]
  by (simp add: fzf_default_def shlex_split_def shlex_whitespace_def shlex_quotes_def
      shlex_escape_def emit_def)

text \<open>
  C3. With index prefixing on, the list sent to the selector has the same length as the
  caller's and line \<open>i\<close> is the decimal numeral of \<open>i\<close>, a tab and item \<open>i\<close>. The
  answer is read as its leading run of digits: when that run is not empty (and within the
  digit limit of \<^verbatim>\<open>int\<close>), \<^verbatim>\<open>select\<close> returns its value, whatever follows it. So an
  answer that starts with the numeral of \<open>i\<close>, followed by nothing or by a non-digit, gives
  \<open>i\<close>: for \<^verbatim>\<open>["a","b","c"]\<close> and the answer \<^verbatim>\<open>"1\tb"\<close> the result is 1, the item \<^verbatim>\<open>"b"\<close>.
\<close>

theorem select_index_prefix_roundtrip:
  assumes "fzf_default cmd indices = (c, True)"
    and "shlex_split c = Inr argv"
    and "sent = prefix_indices items"
    and "sp tr argv (Some (join [CHR 0x0A] sent)) = Inr out"
    and "asked = tr @ [Run argv (Some (join [CHR 0x0A] sent))]"
  shows "length sent = length items
       \<and> (\<forall>i < length items. sent ! i = str_nat i @ [CHR 0x09] @ items ! i)
       \<and> (leading_digits out \<noteq> [] \<and> length (leading_digits out) \<le> int_max_str_digits \<longrightarrow>
            select sp items cmd indices check tr
              = (asked, sent, Inr (int (digits_value (leading_digits out)))))
       \<and> (\<forall>i rest. out = str_nat i @ rest \<and> (rest = [] \<or> \<not> is_digit (hd rest))
              \<and> length (str_nat i) \<le> int_max_str_digits \<longrightarrow>
            select sp items cmd indices check tr = (asked, sent, Inr (int i)))"
proof -
  have run: "sp tr argv (Some (join [CHR 0x0A] (if True then prefix_indices items else items))) = Inr out"
    using assms(3,4) by simp
  have digits: "select sp items cmd indices check tr
                  = (asked, sent, Inr (int (digits_value (leading_digits out))))"
    if "leading_digits out \<noteq> []" and "length (leading_digits out) \<le> int_max_str_digits"
  proof -
    have "py_int (leading_digits out) = Inr (int (digits_value (leading_digits out)))"
      using that by (intro py_int_digits) (auto dest: leading_digits_all)
    then show ?thesis
      using that(1) assms(3,5) by (simp add: select_completed [where sp = sp and tr = tr and items = items and out = out, OF assms(1,2) run] Let_def)
  qed
  have round: "select sp items cmd indices check tr = (asked, sent, Inr (int i))"
    if "out = str_nat i @ rest" and "rest = [] \<or> \<not> is_digit (hd rest)"
      and "length (str_nat i) \<le> int_max_str_digits" for i rest
  proof -
    have "leading_digits out = str_nat i"
      using that(1,2) by (simp add: leading_digits_prefix str_nat_digits)
    then show ?thesis
      using digits that(3) by (simp add: str_nat_nonempty digits_value_str_nat)
  qed
  show ?thesis
    using assms(3) digits round
    by (simp add: length_prefix_indices prefix_indices_nth)
qed

theorem select_index_prefix_roundtrip_witness:
  "select (\<lambda>tr cmd inp. Inr [CHR ''1'', CHR 0x09, CHR ''b'']) [''a'', ''b'', ''c''] None False True []
     = ([Run [''fzf'', ''--with-nth'', ''2..'']
           (Some [CHR ''0'', CHR 0x09, CHR ''a'', CHR 0x0A, CHR ''1'', CHR 0x09, CHR ''b'', CHR 0x0A,
                  CHR ''2'', CHR 0x09, CHR ''c''])],
        [[CHR ''0'', CHR 0x09, CHR ''a''], [CHR ''1'', CHR 0x09, CHR ''b''],
         [CHR ''2'', CHR 0x09, CHR ''c'']],
        Inr 1)
   \<and> [''a'', ''b'', ''c''] ! 1 = ''b''"
proof -
  have p: "prefix_indices [''a'', ''b'', ''c'']
             = [[CHR ''0'', CHR 0x09, CHR ''a''], [CHR ''1'', CHR 0x09, CHR ''b''],
                [CHR ''2'', CHR 0x09, CHR ''c'']]"
    by code_simp
  have s: "shlex_split ''fzf --with-nth 2..'' = Inr [''fzf'', ''--with-nth'', ''2..'']"
    by code_simp
  have l: "leading_digits [CHR ''1'', CHR 0x09, CHR ''b''] = ''1''"
    by code_simp
  have v: "digits_value ''1'' = 1"
    by code_simp
  show ?thesis
    using select_index_prefix_roundtrip [where cmd = None and indices = False
        and c = "''fzf --with-nth 2..''" and argv = "[''fzf'', ''--with-nth'', ''2..'']"
        and items = "[''a'', ''b'', ''c'']" and tr = "[]" and check = True
        and sp = "\<lambda>tr cmd inp. Inr [CHR ''1'', CHR 0x09, CHR ''b'']"
        and out = "[CHR ''1'', CHR 0x09, CHR ''b'']", OF _ s refl refl refl]
    by (simp add: fzf_default_def p l v int_max_str_digits_def)
qed

text \<open>
  C8, as stated, fails: it holds only without index prefixing. With prefixing on, which
  the default selector forces, the answer \<^verbatim>\<open>abc\<close> has an empty digit run and is treated
  as an empty selection: \<^verbatim>\<open>Nothing selected!\<close> and \<open>SystemExit 1\<close> in hard mode, \<open>-1\<close> in
  soft mode, and no \<open>ValueError\<close>.
\<close>

theorem select_malformed_counterexample:
  "py_int ''abc'' = Inl ValueError
   \<and> select (\<lambda>tr cmd inp. Inr ''abc'') [''a''] None False True []
       = ([Run [''fzf'', ''--with-nth'', ''2..''] (Some [CHR ''0'', CHR 0x09, CHR ''a'']),
           Print ''Nothing selected!'', Run [''notify-send'', ''Nothing selected!''] None],
          [[CHR ''0'', CHR 0x09, CHR ''a'']], Inl (SystemExit 1))
   \<and> snd (snd (select (\<lambda>tr cmd inp. Inr ''abc'') [''a''] None False True [])) \<noteq> Inl ValueError
   \<and> snd (snd (select (\<lambda>tr cmd inp. Inr ''abc'') [''a''] None False False [])) = Inr (- 1)"
  by code_simp

text \<open>
  C8, amended. Without index prefixing, a non-empty answer that \<^verbatim>\<open>int\<close> rejects makes
  \<^verbatim>\<open>select\<close> raise \<open>ValueError\<close>, in hard and in soft mode, with nothing printed and no
  notification. With index prefixing, an answer that does not start with a digit takes
  the empty-selection path instead.
\<close>

theorem select_malformed_output:
  assumes "fzf_default cmd indices = (c, ind)"
    and "shlex_split c = Inr argv"
    and "sent = (if ind then prefix_indices items else items)"
    and "sp tr argv (Some (join [CHR 0x0A] sent)) = Inr out"
    and "asked = tr @ [Run argv (Some (join [CHR 0x0A] sent))]"
  shows "(\<not> ind \<and> out \<noteq> [] \<and> py_int out = Inl ValueError \<longrightarrow>
            select sp items cmd indices check tr = (asked, sent, Inl ValueError))
       \<and> (ind \<and> leading_digits out = [] \<longrightarrow>
            select sp items cmd indices False tr = (asked, sent, Inr (- 1))
          \<and> (\<exists>e. select sp items cmd indices True tr
                    = (asked @ [Print ''Nothing selected!'',
                                Run [''notify-send'', ''Nothing selected!''] None], sent, Inl e)))"
proof -
  have run: "sp tr argv (Some (join [CHR 0x0A] (if ind then prefix_indices items else items))) = Inr out"
    using assms(3,4) by simp
  note sel = select_completed [where sp = sp and tr = tr and items = items and out = out,
      OF assms(1,2) run]
  have plain: "select sp items cmd indices check tr = (asked, sent, Inl ValueError)"
    if "\<not> ind" and "out \<noteq> []" and "py_int out = Inl ValueError"
    using that assms(3,5) by (simp add: sel Let_def)
  have soft: "select sp items cmd indices False tr = (asked, sent, Inr (- 1))"
    if "ind" and "leading_digits out = []"
    using that assms(3,5) by (simp add: sel Let_def)
  have hard: "\<exists>e. select sp items cmd indices True tr
                 = (asked @ [Print ''Nothing selected!'',
                             Run [''notify-send'', ''Nothing selected!''] None], sent, Inl e)"
    if "ind" and "leading_digits out = []"
    using that assms(3,5)
    by (auto simp: sel Let_def send_error_def subprocess_run_def split: sum.splits)
  show ?thesis
    using plain soft hard by blast
qed

theorem select_malformed_output_witness:
  "select (\<lambda>tr cmd inp. Inr ''abc'') [''a'', ''b''] (Some ''rofi -dmenu'') False True []
     = ([Run [''rofi'', ''-dmenu''] (Some [CHR ''a'', CHR 0x0A, CHR ''b''])], [''a'', ''b''],
        Inl ValueError)
   \<and> select (\<lambda>tr cmd inp. Inr ''abc'') [''a'', ''b''] (Some ''rofi -dmenu'') True False []
     = ([Run [''rofi'', ''-dmenu'']
           (Some [CHR ''0'', CHR 0x09, CHR ''a'', CHR 0x0A, CHR ''1'', CHR 0x09, CHR ''b''])],
        [[CHR ''0'', CHR 0x09, CHR ''a''], [CHR ''1'', CHR 0x09, CHR ''b'']], Inr (- 1))"
proof -
  have s: "shlex_split ''rofi -dmenu'' = Inr [''rofi'', ''-dmenu'']"
    by code_simp
  have i: "py_int ''abc'' = Inl ValueError"
    by code_simp
  have l: "leading_digits ''abc'' = []"
    by code_simp
  have p: "prefix_indices [''a'', ''b'']
             = [[CHR ''0'', CHR 0x09, CHR ''a''], [CHR ''1'', CHR 0x09, CHR ''b'']]"
    by code_simp
  have plain: "select (\<lambda>tr cmd inp. Inr ''abc'') [''a'', ''b''] (Some ''rofi -dmenu'') False True []
     = ([Run [''rofi'', ''-dmenu''] (Some [CHR ''a'', CHR 0x0A, CHR ''b''])], [''a'', ''b''],
        Inl ValueError)"
    using select_malformed_output [where cmd = "Some ''rofi -dmenu''" and indices = False
        and c = "''rofi -dmenu''" and ind = False and argv = "[''rofi'', ''-dmenu'']"
        and items = "[''a'', ''b'']" and tr = "[]" and check = True
        and sp = "\<lambda>tr cmd inp. Inr ''abc''" and out = "''abc''", OF _ s refl refl refl]
    by (simp add: fzf_default_def i)
  have prefixed: "select (\<lambda>tr cmd inp. Inr ''abc'') [''a'', ''b''] (Some ''rofi -dmenu'') True False []
     = ([Run [''rofi'', ''-dmenu'']
           (Some [CHR ''0'', CHR 0x09, CHR ''a'', CHR 0x0A, CHR ''1'', CHR 0x09, CHR ''b''])],
        [[CHR ''0'', CHR 0x09, CHR ''a''], [CHR ''1'', CHR 0x09, CHR ''b'']], Inr (- 1))"
    using select_malformed_output [where cmd = "Some ''rofi -dmenu''" and indices = True
        and c = "''rofi -dmenu''" and ind = True and argv = "[''rofi'', ''-dmenu'']"
        and items = "[''a'', ''b'']" and tr = "[]" and check = True
        and sp = "\<lambda>tr cmd inp. Inr ''abc''" and out = "''abc''", OF _ s refl refl refl]
    by (simp add: fzf_default_def l p)
  show ?thesis
    using plain prefixed by simp
qed

subsection \<open>Searching\<close>

text \<open>
  C2. When neither \<^verbatim>\<open>fd\<close> nor \<^verbatim>\<open>find\<close> can be started, the default search does not
  report anything: the \<open>FileNotFoundError\<close> of the second call leaves \<^verbatim>\<open>search_pdfs\<close>
  uncaught, after two subprocess calls and with nothing printed and no notification. The
  branch for a custom search command, in the same function, goes through
  \<^verbatim>\<open>try_running_subprocess\<close> and does report: message, notification, \<open>SystemExit 1\<close>.
\<close>

theorem search_pdfs_no_tool_uncaught:
  "search_pdfs (\<lambda>tr cmd inp. Inl FileNotFoundError) ''/home/u'' None False []
     = ([Run [''fd'', ''-I'', ''-t'', ''f'', ''-e'', ''pdf'', ''-a'', ''.'', ''/home/u''] None,
         Run [''find'', ''/home/u'', ''-type'', ''f'', ''-name'', ''*.pdf''] None],
        Inl FileNotFoundError)
   \<and> search_pdfs (\<lambda>tr cmd inp. Inl FileNotFoundError) ''/home/u'' (Some ''locate pdf'') False []
     = ([Run [''locate'', ''pdf''] None, Print ''Command not found!'',
         Run [''notify-send'', ''Command not found!''] None],
        Inl (SystemExit 1))"
  by (simp add: search_pdfs_def subprocess_run_def try_running_subprocess_def send_error_def
      shlex_split_def shlex_whitespace_def shlex_quotes_def shlex_escape_def emit_def)

subsection \<open>The table of contents\<close>

lemma get_toc_loop_step:
  assumes "toc_level t < length (doc_pages doc)"
  shows "get_toc_loop doc flag (t # ts) acc =
     get_toc_loop doc flag ts (acc @ [t\<lparr>toc_to := Some
            (let coords = (case toc_to t of Some p \<Rightarrow> p | None \<Rightarrow> Point0)
             in if flag then point_mul coords (transformation_matrix (doc_pages doc ! toc_level t))
                else coords)\<rparr>])"
  using assms by (simp add: load_page_def Let_def)


lemma get_toc_loop_in_range:
  assumes "\<forall>t \<in> set ts. toc_level t < length (doc_pages doc)"
  shows "get_toc_loop doc flag ts acc =
     Inr (acc @ map (\<lambda>t. t\<lparr>toc_to := Some
            (let coords = (case toc_to t of Some p \<Rightarrow> p | None \<Rightarrow> Point0)
             in if flag then point_mul coords (transformation_matrix (doc_pages doc ! toc_level t))
                else coords)\<rparr>) ts)"
  using assms
proof (induction ts arbitrary: acc)
  case Nil
  show ?case by simp
next
  case (Cons t ts)
  have "toc_level t < length (doc_pages doc)"
    using Cons.prems by simp
  moreover have "\<forall>t \<in> set ts. toc_level t < length (doc_pages doc)"
    using Cons.prems by simp
  ultimately show ?case
    by (simp only: get_toc_loop_step Cons.IH list.map append_Cons append_Nil append_assoc)
qed

lemma get_toc_loop_defined:
  assumes "get_toc_loop doc flag ts acc = Inr toc" and "\<forall>t \<in> set acc. toc_to t \<noteq> None"
  shows "\<forall>t \<in> set toc. toc_to t \<noteq> None"
  using assms
proof (induction ts arbitrary: acc)
  case Nil
  then show ?case by simp
next
  case (Cons t ts)
  show ?case
  proof (cases "toc_level t < length (doc_pages doc)")
    case True
    let ?t = "t\<lparr>toc_to := Some
            (let coords = (case toc_to t of Some p \<Rightarrow> p | None \<Rightarrow> Point0)
             in if flag then point_mul coords (transformation_matrix (doc_pages doc ! toc_level t))
                else coords)\<rparr>"
    have "get_toc_loop doc flag ts (acc @ [?t]) = Inr toc"
      using Cons.prems(1) by (simp only: get_toc_loop_step [OF True])
    moreover have "\<forall>u \<in> set (acc @ [?t]). toc_to u \<noteq> None"
      using Cons.prems(2) by simp
    ultimately show ?thesis
      by (rule Cons.IH)
  next
    case False
    then have "get_toc_loop doc flag (t # ts) acc = Inl ValueError"
      by (simp add: load_page_def)
    then show ?thesis
      using Cons.prems(1) by simp
  qed
qed

text \<open>
  C7. Whenever \<^verbatim>\<open>get_toc\<close> returns, every entry of the list has a point. When every
  entry's level is a page index of the document, \<^verbatim>\<open>get_toc\<close> does return, with one
  entry per entry of the document, and an entry that had no point has the origin
  \<open>(0, 0)\<close>, multiplied by a page matrix like any other point when the device-space flag
  is set.
\<close>

theorem get_toc_points_defined:
  assumes "opn path = Inr doc"
  shows "(\<forall>toc. get_toc opn path flag = Inr toc \<longrightarrow> (\<forall>t \<in> set toc. toc_to t \<noteq> None))
       \<and> ((\<forall>t \<in> set (doc_toc doc). toc_level t < length (doc_pages doc)) \<longrightarrow>
            (\<exists>toc. get_toc opn path flag = Inr toc
                 \<and> length toc = length (doc_toc doc)
                 \<and> (\<forall>i < length toc. toc_to (doc_toc doc ! i) = None \<longrightarrow>
                        toc_to (toc ! i) = Some
                          (if flag
                           then point_mul Point0
                                  (transformation_matrix (doc_pages doc ! toc_level (doc_toc doc ! i)))
                           else Point0))))"
proof -
  have g: "get_toc opn path flag = get_toc_loop doc flag (doc_toc doc) []"
    using assms by (simp add: get_toc_def)
  have a: "\<forall>t \<in> set toc. toc_to t \<noteq> None" if "get_toc opn path flag = Inr toc" for toc
    using that get_toc_loop_defined [of doc flag "doc_toc doc" "[]" toc] by (simp add: g)
  have b: "\<exists>toc. get_toc opn path flag = Inr toc
                 \<and> length toc = length (doc_toc doc)
                 \<and> (\<forall>i < length toc. toc_to (doc_toc doc ! i) = None \<longrightarrow>
                        toc_to (toc ! i) = Some
                          (if flag
                           then point_mul Point0
                                  (transformation_matrix (doc_pages doc ! toc_level (doc_toc doc ! i)))
                           else Point0))"
    if "\<forall>t \<in> set (doc_toc doc). toc_level t < length (doc_pages doc)"
    using get_toc_loop_in_range [OF that, of flag "[]"] by (simp add: g Let_def)
  show ?thesis using a b by blast
qed


theorem get_toc_points_defined_witness:
  "\<exists>toc. get_toc (\<lambda>p. Inr \<lparr>doc_toc = [\<lparr>toc_level = 1, toc_title = ''Intro'', toc_page = 1,
                                                toc_to = None :: int point option\<rparr>],
                                    doc_pages = [\<lparr>transformation_matrix =
                                                   \<lparr>mat_a = 1, mat_b = 0, mat_c = 0, mat_d = - 1,
                                                    mat_e = 0, mat_f = 100\<rparr>\<rparr>,
                                                 \<lparr>transformation_matrix =
                                                   \<lparr>mat_a = 1, mat_b = 0, mat_c = 0, mat_d = - 1,
                                                    mat_e = 0, mat_f = 200\<rparr>\<rparr>]\<rparr>)
              ''book.pdf'' True = Inr toc
         \<and> length toc = 1
         \<and> toc_to (toc ! 0) = Some \<lparr>point_x = 0, point_y = 200\<rparr>"
proof -
  let ?doc = "\<lparr>doc_toc = [\<lparr>toc_level = 1, toc_title = ''Intro'', toc_page = 1,
                            toc_to = None :: int point option\<rparr>],
                doc_pages = [\<lparr>transformation_matrix =
                               \<lparr>mat_a = 1, mat_b = 0, mat_c = 0, mat_d = - 1,
                                mat_e = 0, mat_f = 100\<rparr>\<rparr>,
                             \<lparr>transformation_matrix =
                               \<lparr>mat_a = 1, mat_b = 0, mat_c = 0, mat_d = - 1,
                                mat_e = 0, mat_f = 200\<rparr>\<rparr>]\<rparr>"
  have "\<exists>toc. get_toc (\<lambda>p. Inr ?doc) ''book.pdf'' True = Inr toc
           \<and> length toc = length (doc_toc ?doc)
           \<and> (\<forall>i < length toc. toc_to (doc_toc ?doc ! i) = None \<longrightarrow>
                  toc_to (toc ! i) = Some
                    (if True
                     then point_mul Point0
                            (transformation_matrix (doc_pages ?doc ! toc_level (doc_toc ?doc ! i)))
                     else Point0))"
    using get_toc_points_defined [where flag = True and path = "''book.pdf''"
        and opn = "\<lambda>p. Inr ?doc" and doc = ?doc, OF refl]
    by simp
  then obtain toc where t: "get_toc (\<lambda>p. Inr ?doc) ''book.pdf'' True = Inr toc"
      and l: "length toc = 1"
      and z: "\<forall>i < length toc. toc_to (doc_toc ?doc ! i) = None \<longrightarrow>
                  toc_to (toc ! i) = Some
                    (point_mul Point0
                       (transformation_matrix (doc_pages ?doc ! toc_level (doc_toc ?doc ! i))))"
    by auto
  have "toc_to (toc ! 0) = Some \<lparr>point_x = 0, point_y = 200\<rparr>"
    using z l by (simp add: Point0_def point_mul_def)
  then show ?thesis
    using t l by simp
qed

text \<open>
  C1. The page whose matrix transforms an entry's point is \<^verbatim>\<open>doc.load_page(t[0])\<close>,
  and \<^verbatim>\<open>t[0]\<close> is the entry's level, not its page \<^verbatim>\<open>t[2]\<close>. In a document of three
  pages of heights 100, 200 and 300, two top-level entries that point at pages 1 and 3
  both get the matrix of the page with index 1: \<open>(10, 20)\<close> becomes \<open>(10, 180)\<close> for
  both, where the destination pages give \<open>(10, 80)\<close> and \<open>(10, 280)\<close>. In a document
  of one page the same call raises \<open>ValueError\<close>, with or without the flag.
\<close>

theorem get_toc_uses_level_as_page:
  "get_toc (\<lambda>p. Inr \<lparr>doc_toc = [\<lparr>toc_level = 1, toc_title = ''Intro'', toc_page = 1,
                                     toc_to = Some \<lparr>point_x = 10, point_y = 20 :: int\<rparr>\<rparr>,
                                   \<lparr>toc_level = 1, toc_title = ''End'', toc_page = 3,
                                     toc_to = Some \<lparr>point_x = 10, point_y = 20\<rparr>\<rparr>],
                         doc_pages = [\<lparr>transformation_matrix =
                                        \<lparr>mat_a = 1, mat_b = 0, mat_c = 0, mat_d = - 1,
                                         mat_e = 0, mat_f = 100\<rparr>\<rparr>,
                                      \<lparr>transformation_matrix =
                                        \<lparr>mat_a = 1, mat_b = 0, mat_c = 0, mat_d = - 1,
                                         mat_e = 0, mat_f = 200\<rparr>\<rparr>,
                                      \<lparr>transformation_matrix =
                                        \<lparr>mat_a = 1, mat_b = 0, mat_c = 0, mat_d = - 1,
                                         mat_e = 0, mat_f = 300\<rparr>\<rparr>]\<rparr>)
     ''book.pdf'' True
   = Inr [\<lparr>toc_level = 1, toc_title = ''Intro'', toc_page = 1,
            toc_to = Some \<lparr>point_x = 10, point_y = 180\<rparr>\<rparr>,
          \<lparr>toc_level = 1, toc_title = ''End'', toc_page = 3,
            toc_to = Some \<lparr>point_x = 10, point_y = 180\<rparr>\<rparr>]
   \<and> get_toc (\<lambda>p. Inr \<lparr>doc_toc = [\<lparr>toc_level = 1, toc_title = ''Intro'', toc_page = 1,
                                       toc_to = Some \<lparr>point_x = 10, point_y = 20 :: int\<rparr>\<rparr>],
                           doc_pages = [\<lparr>transformation_matrix =
                                          \<lparr>mat_a = 1, mat_b = 0, mat_c = 0, mat_d = - 1,
                                           mat_e = 0, mat_f = 100\<rparr>\<rparr>]\<rparr>)
       ''leaflet.pdf'' False
     = Inl ValueError"
  by (simp add: get_toc_def load_page_def point_mul_def)

subsection \<open>Opening the viewer\<close>

lemma try_running_subprocess_completed:
  "sp tr cmd inp = Inr out \<Longrightarrow>
   try_running_subprocess sp cmd msg inp tr = (tr @ [Run cmd inp], Inr out)"
  by (simp add: try_running_subprocess_def subprocess_run_def)

lemma open_pdf_no_position:
  assumes "zathura_default cmd position_args = (c, pa)" and "shlex_split c = Inr argv"
  shows "open_pdf sp fstr path cmd position_args None tr =
     (case try_running_subprocess sp (argv @ [path]) (''PDF viewer ('' @ c @ '') not found!'') None tr of
        (tr', Inl e) \<Rightarrow> (tr', Inl e)
      | (tr', Inr _) \<Rightarrow> (tr', Inr ()))"
  using assms by (simp add: open_pdf_def)

lemma open_pdf_with_position:
  assumes "zathura_default cmd position_args = (c, pa)" and "shlex_split c = Inr argv"
    and "(if pa \<noteq> None \<and> pa \<noteq> Some [] then substitute fstr pos [0, 1, 2] (the pa) else Inr []) = Inr text"
    and "shlex_split text = Inr extra"
  shows "open_pdf sp fstr path cmd position_args (Some pos) tr =
     (case try_running_subprocess sp (argv @ [path] @ extra) (''PDF viewer ('' @ c @ '') not found!'') None tr of
        (tr', Inl e) \<Rightarrow> (tr', Inl e)
      | (tr', Inr _) \<Rightarrow> (tr', Inr ()))"
  using assms by (simp add: open_pdf_def)

lemma substitute_triple:
  "substitute fstr [p, x, y] [0, 1, 2] template =
     Inr (re_sub ''$yloc'' (py_str fstr y) (re_sub ''$xloc'' (py_str fstr x)
            (re_sub ''$page'' (py_str fstr p) template)))"
  by (simp add: pos_strings_def)

lemma shlex_split_empty: "shlex_split [] = Inr []"
  by (simp add: shlex_split_def emit_def shlex_quotes_def shlex_escape_def)

lemma open_pdf_without_cmd:
  "open_pdf sp fstr path None position_args position tr
     = open_pdf sp fstr path (Some ''zathura'') (Some ''-P $page'') position tr"
  by (simp add: open_pdf_def zathura_default_def)

lemma try_running_subprocess_shape:
  "\<exists>rest r. try_running_subprocess sp cmd msg inp tr = (tr @ Run cmd inp # rest, r)
       \<and> (rest = [] \<or> rest = [Print msg, Run [''notify-send'', msg] None])
       \<and> (\<forall>out. sp tr cmd inp = Inr out \<longrightarrow> rest = [] \<and> r = Inr out)"
proof (cases "sp tr cmd inp")
  case (Inr out)
  then show ?thesis
    by (simp add: try_running_subprocess_def subprocess_run_def)
next
  case (Inl e)
  show ?thesis
  proof (cases "e = FileNotFoundError")
    case False
    with Inl show ?thesis
      by (simp add: try_running_subprocess_def subprocess_run_def)
  next
    case True
    with Inl show ?thesis
      by (simp add: try_running_subprocess_def subprocess_run_def send_error_def
          split: sum.splits)
  qed
qed

lemma zathura_default_cmd:
  "zathura_default cmd None =
     (case cmd of None \<Rightarrow> ''zathura'' | Some c \<Rightarrow> c,
      case cmd of None \<Rightarrow> Some ''-P $page'' | Some c \<Rightarrow> None)"
  by (simp add: zathura_default_def split: option.splits)

text \<open>
  C6. Given a position \<open>[p, x, y]\<close> and a non-empty template, \<^verbatim>\<open>open_pdf\<close> replaces
  \<^verbatim>\<open>$page\<close>, then \<^verbatim>\<open>$xloc\<close>, then \<^verbatim>\<open>$yloc\<close> by the texts of \<open>p\<close>, \<open>x\<close> and \<open>y\<close>,
  splits the result like a shell and runs the viewer with these words after the file
  path. With the template \<^verbatim>\<open>--page $page --xloc $xloc --yloc $yloc\<close> and the position
  \<open>(3, 10.5, 20.25)\<close>, whose floats print as \<^verbatim>\<open>10.5\<close> and \<^verbatim>\<open>20.25\<close>, the words are
  \<^verbatim>\<open>--page 3 --xloc 10.5 --yloc 20.25\<close>. With an empty or absent template nothing
  follows the file path, whatever the position.
\<close>

theorem open_pdf_position_args:
  assumes "shlex_split c = Inr argv"
  shows "(template \<noteq> []
          \<and> shlex_split (re_sub ''$yloc'' (py_str fstr y) (re_sub ''$xloc'' (py_str fstr x)
                           (re_sub ''$page'' (py_str fstr p) template))) = Inr extra
          \<and> sp tr (argv @ [path] @ extra) None = Inr out \<longrightarrow>
          open_pdf sp fstr path (Some c) (Some template) (Some [p, x, y]) tr
            = (tr @ [Run (argv @ [path] @ extra) None], Inr ()))
       \<and> (fstr fx = ''10.5'' \<and> fstr fy = ''20.25''
          \<and> sp tr (argv @ [path, ''--page'', ''3'', ''--xloc'', ''10.5'', ''--yloc'', ''20.25'']) None = Inr out \<longrightarrow>
          open_pdf sp fstr path (Some c) (Some ''--page $page --xloc $xloc --yloc $yloc'')
              (Some [PyInt 3, PyFloat fx, PyFloat fy]) tr
            = (tr @ [Run (argv @ [path, ''--page'', ''3'', ''--xloc'', ''10.5'', ''--yloc'', ''20.25'']) None],
               Inr ()))
       \<and> (sp tr (argv @ [path]) None = Inr out \<longrightarrow>
          open_pdf sp fstr path (Some c) (Some []) (Some pos) tr = (tr @ [Run (argv @ [path]) None], Inr ())
        \<and> open_pdf sp fstr path (Some c) None (Some pos) tr = (tr @ [Run (argv @ [path]) None], Inr ()))"
proof -
  have z: "zathura_default (Some c) pa = (c, pa)" for pa
    by (simp add: zathura_default_def)
  have general: "open_pdf sp fstr path (Some c) (Some template) (Some [p, x, y]) tr
            = (tr @ [Run (argv @ [path] @ extra) None], Inr ())"
    if "template \<noteq> []"
      and "shlex_split (re_sub ''$yloc'' (py_str fstr y) (re_sub ''$xloc'' (py_str fstr x)
                           (re_sub ''$page'' (py_str fstr p) template))) = Inr extra"
      and "sp tr (argv @ [path] @ extra) None = Inr out"
    for template p x y extra
  proof -
    have sub: "(if Some template \<noteq> None \<and> Some template \<noteq> Some []
                then substitute fstr [p, x, y] [0, 1, 2] (the (Some template)) else Inr [])
               = Inr (re_sub ''$yloc'' (py_str fstr y) (re_sub ''$xloc'' (py_str fstr x)
                        (re_sub ''$page'' (py_str fstr p) template)))"
      using that(1) by (simp add: pos_strings_def)
    show ?thesis
      using that(3)
      by (simp add: open_pdf_with_position [OF z assms sub that(2)]
          try_running_subprocess_completed)
  qed
  have three: "str_int 3 = ''3''"
    by code_simp
  have subst: "re_sub ''$yloc'' ''20.25'' (re_sub ''$xloc'' ''10.5''
                 (re_sub ''$page'' ''3'' ''--page $page --xloc $xloc --yloc $yloc''))
               = ''--page 3 --xloc 10.5 --yloc 20.25''"
    by code_simp
  have split: "shlex_split ''--page 3 --xloc 10.5 --yloc 20.25''
                 = Inr [''--page'', ''3'', ''--xloc'', ''10.5'', ''--yloc'', ''20.25'']"
    by code_simp
  have example: "open_pdf sp fstr path (Some c) (Some ''--page $page --xloc $xloc --yloc $yloc'')
              (Some [PyInt 3, PyFloat fx, PyFloat fy]) tr
            = (tr @ [Run (argv @ [path, ''--page'', ''3'', ''--xloc'', ''10.5'', ''--yloc'', ''20.25'']) None],
               Inr ())"
    if "fstr fx = ''10.5''" and "fstr fy = ''20.25''"
      and "sp tr (argv @ [path, ''--page'', ''3'', ''--xloc'', ''10.5'', ''--yloc'', ''20.25'']) None = Inr out"
    using general [of "''--page $page --xloc $xloc --yloc $yloc''" "PyFloat fy" "PyFloat fx" "PyInt 3"
        "[''--page'', ''3'', ''--xloc'', ''10.5'', ''--yloc'', ''20.25'']"] that
    by (simp add: py_str_def three subst split)
  have empty: "open_pdf sp fstr path (Some c) pa (Some pos) tr = (tr @ [Run (argv @ [path]) None], Inr ())"
    if "sp tr (argv @ [path]) None = Inr out" and "pa = None \<or> pa = Some []" for pa
  proof -
    have sub: "(if pa \<noteq> None \<and> pa \<noteq> Some []
                then substitute fstr pos [0, 1, 2] (the pa) else Inr []) = Inr []"
      using that(2) by auto
    show ?thesis
      using that(1)
      by (simp add: open_pdf_with_position [OF z assms sub shlex_split_empty]
          try_running_subprocess_completed)
  qed
  show ?thesis
    using general example empty by blast
qed


theorem open_pdf_position_args_witness:
  "open_pdf (\<lambda>tr cmd inp. Inr [])
      (\<lambda>r :: real. if r = 10.5 then ''10.5'' else if r = 20.25 then ''20.25'' else ''nan'')
      ''/home/u/book.pdf'' (Some ''sioyek'') (Some ''--page $page --xloc $xloc --yloc $yloc'')
      (Some [PyInt 3, PyFloat 10.5, PyFloat 20.25]) []
     = ([Run [''sioyek'', ''/home/u/book.pdf'', ''--page'', ''3'', ''--xloc'', ''10.5'',
              ''--yloc'', ''20.25''] None], Inr ())
   \<and> open_pdf (\<lambda>tr cmd inp. Inr [])
      (\<lambda>r :: real. if r = 10.5 then ''10.5'' else if r = 20.25 then ''20.25'' else ''nan'')
      ''/home/u/book.pdf'' (Some ''sioyek'') (Some [])
      (Some [PyInt 3, PyFloat 10.5, PyFloat 20.25]) []
     = ([Run [''sioyek'', ''/home/u/book.pdf''] None], Inr ())"
proof -
  have s: "shlex_split ''sioyek'' = Inr [''sioyek'']"
    by code_simp
  show ?thesis
    using open_pdf_position_args [OF s, where sp = "\<lambda>tr cmd inp. Inr []" and tr = "[]"
        and fstr = "\<lambda>r :: real. if r = 10.5 then ''10.5'' else if r = 20.25 then ''20.25'' else ''nan''"
        and fx = "10.5" and fy = "20.25" and path = "''/home/u/book.pdf''" and out = "[]"
        and pos = "[PyInt 3, PyFloat 10.5, PyFloat 20.25]"]
    by simp
qed

text \<open>
  C10. Without a viewer command \<^verbatim>\<open>open_pdf\<close> behaves as with \<^verbatim>\<open>zathura\<close> and the
  template \<^verbatim>\<open>-P $page\<close>, whatever template the caller passed. So a run of the program
  without \<^verbatim>\<open>--pdf-viewer\<close> does the same for any two values of \<^verbatim>\<open>--pdf-viewer-args\<close>.
\<close>

theorem open_pdf_default_viewer_overrides_template:
  "open_pdf sp fstr path None position_args position tr
     = open_pdf sp fstr path (Some ''zathura'') (Some ''-P $page'') position tr
   \<and> main w (a\<lparr>pdf_viewer := None, pdf_viewer_args := template\<rparr>) tr
     = main w (a\<lparr>pdf_viewer := None, pdf_viewer_args := template'\<rparr>) tr"
  by (simp add: main_def open_pdf_without_cmd
      cong: prod.case_cong sum.case_cong option.case_cong if_cong)

theorem open_pdf_default_viewer_overrides_template_witness:
  "open_pdf (\<lambda>tr cmd inp. Inr []) (\<lambda>r :: real. ''0.0'') ''/home/u/book.pdf'' None
      (Some ''--page $page --xloc $xloc'') (Some [PyInt 3, PyFloat 0, PyFloat 0]) []
     = ([Run [''zathura'', ''/home/u/book.pdf'', ''-P'', ''3''] None], Inr ())"
proof -
  have e: "open_pdf (\<lambda>tr cmd inp. Inr []) (\<lambda>r :: real. ''0.0'') ''/home/u/book.pdf''
             (Some ''zathura'') (Some ''-P $page'') (Some [PyInt 3, PyFloat 0, PyFloat 0]) []
           = ([Run [''zathura'', ''/home/u/book.pdf'', ''-P'', ''3''] None], Inr ())"
    by code_simp
  show ?thesis
    using open_pdf_default_viewer_overrides_template [where sp = "\<lambda>tr cmd inp. Inr []"
        and fstr = "\<lambda>r :: real. ''0.0''" and path = "''/home/u/book.pdf''"
        and position_args = "Some ''--page $page --xloc $xloc''"
        and position = "Some [PyInt 3, PyFloat 0, PyFloat 0]" and tr = "[]", THEN conjunct1]
      e
    by simp
qed

subsection \<open>The program\<close>

text \<open>
  C4. Take a run in which the search, the choice of a file and the extraction of the
  table of contents succeed. When the table is empty, or \<^verbatim>\<open>--no-toc\<close> is given, or the
  soft selection of an entry returns a negative number (\<open>-1\<close> for a cancelled one), the
  next subprocess is the viewer, called with the words of the viewer command and the
  file path and nothing else, whatever \<^verbatim>\<open>--pdf-viewer-args\<close> is. After it comes nothing,
  or the error report when the viewer is missing; when the viewer runs, the program ends
  normally.
\<close>

theorem main_without_entry_opens_plain:
  assumes "search_pdfs (run w) (case base_directory a of Some b \<Rightarrow> b | None \<Rightarrow> expandvars_HOME w)
             (search_cmd a) (hidden a) tr = (tr1, Inr pdfs)"
    and "select (run w) (map (\<lambda>p. if full_path a then p else strip_directories p) pdfs)
           (merge_strings [selector a, pdf_selector_args a]) (selector_indices a) True tr1
         = (tr2, its, Inr i)"
    and "py_index pdfs i = Inr selected_pdf"
    and "get_toc (pymupdf_open w) selected_pdf (mupdf_coordinate_space a) = Inr toc"
    and "viewer = (case pdf_viewer a of None \<Rightarrow> ''zathura'' | Some c \<Rightarrow> c)"
    and "shlex_split viewer = Inr argv"
    and "(toc = [] \<or> no_toc a) \<and> trv = tr2
         \<or> toc \<noteq> [] \<and> \<not> no_toc a
           \<and> (\<exists>its' n. select (run w) (map toc_title toc)
                           (merge_strings [selector a, toc_selector_args a]) (selector_indices a)
                           False tr2 = (trv, its', Inr n) \<and> n < 0)"
  shows "\<exists>rest r. main w (a\<lparr>pdf_viewer_args := template\<rparr>) tr
                    = (trv @ Run (argv @ [selected_pdf]) None # rest, r)
       \<and> (rest = [] \<or> rest = [Print (''PDF viewer ('' @ viewer @ '') not found!''),
                                Run [''notify-send'', ''PDF viewer ('' @ viewer @ '') not found!''] None])
       \<and> (\<forall>out. run w trv (argv @ [selected_pdf]) None = Inr out \<longrightarrow> rest = [] \<and> r = Inr ())"
proof -
  let ?a = "a\<lparr>pdf_viewer_args := template\<rparr>"
  consider (plain) "toc = [] \<or> no_toc a" and "trv = tr2"
    | (cancelled) its' n where "toc \<noteq> []" and "\<not> no_toc a"
        and "select (run w) (map toc_title toc) (merge_strings [selector a, toc_selector_args a])
               (selector_indices a) False tr2 = (trv, its', Inr n)"
        and "n < 0"
    using assms(7) by blast
  then have m: "main w ?a tr
                  = open_pdf (run w) (float_str w) selected_pdf (pdf_viewer a) None None trv"
  proof cases
    case plain
    then show ?thesis
      using assms(1-4) by (auto simp: main_def)
  next
    case cancelled
    then show ?thesis
      using assms(1-4) by (simp add: main_def)
  qed
  have z: "zathura_default (pdf_viewer a) None
             = (viewer, case pdf_viewer a of None \<Rightarrow> Some ''-P $page'' | Some c \<Rightarrow> None)"
    using assms(5) by (simp add: zathura_default_cmd)
  obtain rest r where t: "try_running_subprocess (run w) (argv @ [selected_pdf])
                            (''PDF viewer ('' @ viewer @ '') not found!'') None trv
                          = (trv @ Run (argv @ [selected_pdf]) None # rest, r)"
      and shape: "rest = [] \<or> rest = [Print (''PDF viewer ('' @ viewer @ '') not found!''),
                                Run [''notify-send'', ''PDF viewer ('' @ viewer @ '') not found!''] None]"
      and completed: "\<forall>out. run w trv (argv @ [selected_pdf]) None = Inr out \<longrightarrow> rest = [] \<and> r = Inr out"
    using try_running_subprocess_shape [of "run w" "argv @ [selected_pdf]"
        "''PDF viewer ('' @ viewer @ '') not found!''" None trv]
    by blast
  have "main w ?a tr = (trv @ Run (argv @ [selected_pdf]) None # rest,
                        case r of Inl e \<Rightarrow> Inl e | Inr _ \<Rightarrow> Inr ())"
    unfolding m open_pdf_no_position [OF z assms(6)] t by (cases r) simp_all
  moreover have "\<forall>out. run w trv (argv @ [selected_pdf]) None = Inr out \<longrightarrow>
                   rest = [] \<and> (case r of Inl e \<Rightarrow> Inl e | Inr _ \<Rightarrow> Inr ()) = Inr ()"
    using completed by auto
  ultimately show ?thesis
    using shape by blast
qed


theorem main_without_entry_opens_plain_witness:
  "main \<lparr>run = (\<lambda>tr cmd inp. if length tr = 0 then Inr (''/home/u/book.pdf'' @ [CHR 0x0A])
                                else if length tr = 1 then Inr ''0'' else Inr []),
         pymupdf_open = (\<lambda>p. Inr \<lparr>doc_toc = [\<lparr>toc_level = 1, toc_title = ''Intro'', toc_page = 2,
                                                   toc_to = Some \<lparr>point_x = 0, point_y = 0 :: real\<rparr>\<rparr>],
                                       doc_pages = [\<lparr>transformation_matrix =
                                                      \<lparr>mat_a = 1, mat_b = 0, mat_c = 0, mat_d = - 1,
                                                       mat_e = 0, mat_f = 100\<rparr>\<rparr>,
                                                    \<lparr>transformation_matrix =
                                                      \<lparr>mat_a = 1, mat_b = 0, mat_c = 0, mat_d = - 1,
                                                       mat_e = 0, mat_f = 100\<rparr>\<rparr>]\<rparr>),
         expandvars_HOME = ''/home/u'', float_str = (\<lambda>r. ''0.0'')\<rparr>
        \<lparr>full_path = False, no_toc = False, hidden = False, base_directory = None, selector = None,
         selector_indices = False, pdf_selector_args = None, toc_selector_args = None,
         pdf_viewer = Some ''sioyek'', pdf_viewer_args = Some ''--page $page --xloc $xloc'',
         mupdf_coordinate_space = False, search_cmd = None\<rparr> []
     = ([Run [''fd'', ''-I'', ''-t'', ''f'', ''-e'', ''pdf'', ''-a'', ''.'', ''/home/u''] None,
         Run [''fzf'', ''--with-nth'', ''2..''] (Some (''0'' @ [CHR 0x09] @ ''book.pdf'')),
         Run [''fzf'', ''--with-nth'', ''2..''] (Some (''0'' @ [CHR 0x09] @ ''Intro'')),
         Run [''sioyek'', ''/home/u/book.pdf''] None],
        Inr ())"
proof -
  let ?sp = "\<lambda>(tr :: event list) (cmd :: string list) (inp :: string option).
               if length tr = 0 then Inr (''/home/u/book.pdf'' @ [CHR 0x0A]) :: py_exception + string
               else if length tr = 1 then Inr ''0'' else Inr []"
  let ?entry = "\<lparr>toc_level = 1, toc_title = ''Intro'', toc_page = 2,
                  toc_to = Some \<lparr>point_x = 0, point_y = 0 :: real\<rparr>\<rparr>"
  let ?page = "\<lparr>transformation_matrix =
                  \<lparr>mat_a = 1, mat_b = 0, mat_c = 0, mat_d = - 1, mat_e = 0, mat_f = 100 :: real\<rparr>\<rparr>"
  let ?opn = "\<lambda>p :: string. Inr \<lparr>doc_toc = [?entry], doc_pages = [?page, ?page]\<rparr>
                :: py_exception + real document"
  let ?w = "\<lparr>run = ?sp, pymupdf_open = ?opn, expandvars_HOME = ''/home/u'',
               float_str = (\<lambda>r :: real. ''0.0'')\<rparr>"
  let ?a = "\<lparr>full_path = False, no_toc = False, hidden = False, base_directory = None,
               selector = None, selector_indices = False, pdf_selector_args = None,
               toc_selector_args = None, pdf_viewer = Some ''sioyek'', pdf_viewer_args = None,
               mupdf_coordinate_space = False, search_cmd = None\<rparr>"
  let ?tr1 = "[Run [''fd'', ''-I'', ''-t'', ''f'', ''-e'', ''pdf'', ''-a'', ''.'', ''/home/u''] None]"
  let ?tr2 = "?tr1 @ [Run [''fzf'', ''--with-nth'', ''2..''] (Some (''0'' @ [CHR 0x09] @ ''book.pdf''))]"
  let ?tr3 = "?tr2 @ [Run [''fzf'', ''--with-nth'', ''2..''] (Some (''0'' @ [CHR 0x09] @ ''Intro''))]"
  have f1: "search_pdfs ?sp ''/home/u'' None False [] = (?tr1, Inr [''/home/u/book.pdf''])"
    by code_simp
  have f2: "select ?sp [''book.pdf''] None False True ?tr1
              = (?tr2, [''0'' @ [CHR 0x09] @ ''book.pdf''], Inr 0)"
    by code_simp
  have f3: "py_index [''/home/u/book.pdf''] 0 = Inr ''/home/u/book.pdf''"
    by (simp add: py_index_def)
  have f4: "get_toc ?opn ''/home/u/book.pdf'' False = Inr [?entry]"
    by (simp add: get_toc_def load_page_def)
  have f5: "shlex_split ''sioyek'' = Inr [''sioyek'']"
    by code_simp
  have f6: "select ?sp [''Intro''] None False False ?tr2
              = (?tr3, [''0'' @ [CHR 0x09] @ ''Intro''], Inr (- 1))"
    by code_simp
  have f7: "strip_directories ''/home/u/book.pdf'' = ''book.pdf''"
    by code_simp
  have m: "merge_strings [None, None] = None"
    by (simp add: merge_strings_def)
  have a1: "search_pdfs (run ?w) (case base_directory ?a of Some b \<Rightarrow> b | None \<Rightarrow> expandvars_HOME ?w)
              (search_cmd ?a) (hidden ?a) [] = (?tr1, Inr [''/home/u/book.pdf''])"
    using f1 by simp
  have a2: "select (run ?w)
              (map (\<lambda>p. if full_path ?a then p else strip_directories p) [''/home/u/book.pdf''])
              (merge_strings [selector ?a, pdf_selector_args ?a]) (selector_indices ?a) True ?tr1
            = (?tr2, [''0'' @ [CHR 0x09] @ ''book.pdf''], Inr 0)"
    using f2 by (simp add: f7 m)
  have a4: "get_toc (pymupdf_open ?w) ''/home/u/book.pdf'' (mupdf_coordinate_space ?a) = Inr [?entry]"
    using f4 by simp
  have a5: "''sioyek'' = (case pdf_viewer ?a of None \<Rightarrow> ''zathura'' | Some c \<Rightarrow> c)"
    by simp
  have a7: "([?entry] = [] \<or> no_toc ?a) \<and> ?tr3 = ?tr2
         \<or> [?entry] \<noteq> [] \<and> \<not> no_toc ?a
           \<and> (\<exists>its' n. select (run ?w) (map toc_title [?entry])
                           (merge_strings [selector ?a, toc_selector_args ?a]) (selector_indices ?a)
                           False ?tr2 = (?tr3, its', Inr n) \<and> n < 0)"
    using f6 by (simp add: m)
  have v: "run ?w ?tr3 ([''sioyek''] @ [''/home/u/book.pdf'']) None = Inr []"
    by simp
  show ?thesis
    using main_without_entry_opens_plain [OF a1 a2 f3 a4 a5 f5 a7,
        of "Some ''--page $page --xloc $xloc''"] v
    by auto
qed

end
